theory Spec2Isabelle
  imports Complex_Main
begin

section \<open>Vectors, matrices and Python errors\<close>

text \<open>
  The notebooks compute with NGSolve vectors and sparse matrices of Python floats.
  Vectors are lists of reals and matrices lists of rows; arithmetic is exact real
  arithmetic, so rounding is outside the model. Every Python exception the modelled
  statements can raise is a value of \<open>pyerror\<close>.
\<close>

type_synonym vec = "real list"
type_synonym mat = "real list list"

datatype pyerror =
    NameError string
  | AttributeError string
  | IndexError
  | ZeroDivisionError
  | RuntimeError string

definition vadd :: "vec \<Rightarrow> vec \<Rightarrow> vec" where
  "vadd x y = map2 (+) x y"

definition vsub :: "vec \<Rightarrow> vec \<Rightarrow> vec" where
  "vsub x y = map2 (-) x y"

definition smul :: "real \<Rightarrow> vec \<Rightarrow> vec" where
  "smul c x = map ((*) c) x"

definition dot :: "vec \<Rightarrow> vec \<Rightarrow> real" where
  "dot x y = sum_list (map2 (*) x y)"

definition matvec :: "mat \<Rightarrow> vec \<Rightarrow> vec" where
  "matvec A x = map (\<lambda>row. dot row x) A"

definition Norm :: "vec \<Rightarrow> real" where
  "Norm x = sqrt (dot x x)"

definition zeros :: "nat \<Rightarrow> vec" where
  "zeros n = replicate n 0"

section \<open>The inverse restricted to the free degrees of freedom\<close>

text \<open>
  \<open>a.mat.Inverse(freedofs=F)\<close> is a call into the linear-algebra backend. The
  factorisation itself is the parameter \<open>factor\<close> (any function from the reduced matrix
  to a matrix); what is fixed here is the restriction to the free rows and columns and
  the zero extension of the result.
\<close>

definition select :: "bool list \<Rightarrow> 'a list \<Rightarrow> 'a list" where
  "select F xs = map snd (filter fst (zip F xs))"

definition restrict :: "mat \<Rightarrow> bool list \<Rightarrow> mat" where
  "restrict A F = map (select F) (select F A)"

definition rank :: "bool list \<Rightarrow> nat \<Rightarrow> nat" where
  "rank F i = length (filter id (take i F))"

definition entry :: "mat \<Rightarrow> nat \<Rightarrow> nat \<Rightarrow> real" where
  "entry M i j = (if i < length M then (if j < length (M ! i) then M ! i ! j else 0) else 0)"

text \<open>
  Modelled from the spec: the backend's inverse with a free-DOF mask, absent from the
  notebooks' own code. The reduced system \<open>A_FF\<close> is handed to the factorisation and
  the result is zero-extended outside \<open>F\<close>: row \<open>i\<close> and column \<open>j\<close> of the operator
  are zero unless both \<open>i\<close> and \<open>j\<close> are free.
\<close>

definition Inverse :: "(mat \<Rightarrow> mat) \<Rightarrow> mat \<Rightarrow> bool list \<Rightarrow> mat" where
  "Inverse factor A F =
     map (\<lambda>i. map (\<lambda>j. if F ! i \<and> F ! j
                          then entry (factor (restrict A F)) (rank F i) (rank F j)
                          else 0)
                [0..<length F])
         [0..<length F]"

text \<open>
  The statements shared by \<open>main\<close> and \<open>Beam.solve_system\<close>:
  \<^verbatim>\<open>
    r = f.vec.CreateVector()
    r.data = f.vec - a.mat * gfu.vec
    gfu.vec.data += a.mat.Inverse(freedofs=fes.FreeDofs()) * r
  \<close>
\<close>

definition dirichlet_solve :: "(mat \<Rightarrow> mat) \<Rightarrow> mat \<Rightarrow> vec \<Rightarrow> bool list \<Rightarrow> vec \<Rightarrow> vec" where
  "dirichlet_solve factor a f freedofs gfu =
     (let r = vsub f (matvec a gfu)
      in vadd gfu (matvec (Inverse factor a freedofs) r))"

text \<open>
  Shapes of a system of \<open>n\<close> degrees of freedom (\<open>n\<close> the length of the mask): the
  vectors have length \<open>n\<close> and the matrix is \<open>n\<close> by \<open>n\<close>; the factorisation returns a
  square matrix of the size of the reduced system; and the factorisation solves the
  reduced system \<open>A_FF y = r_F\<close> for the residual \<open>r\<close>.
\<close>

definition system_shape :: "mat \<Rightarrow> vec \<Rightarrow> bool list \<Rightarrow> vec \<Rightarrow> bool" where
  "system_shape a f freedofs ug =
     (length ug = length freedofs \<and> length f = length freedofs \<and>
      length a = length freedofs \<and> list_all (\<lambda>row. length row = length freedofs) a)"

definition reduced_shape :: "(mat \<Rightarrow> mat) \<Rightarrow> mat \<Rightarrow> bool list \<Rightarrow> bool" where
  "reduced_shape fac a freedofs =
     (length (fac (restrict a freedofs)) = length (filter id freedofs) \<and>
      list_all (\<lambda>row. length row = length (filter id freedofs)) (fac (restrict a freedofs)))"

definition solves_reduced :: "(mat \<Rightarrow> mat) \<Rightarrow> mat \<Rightarrow> bool list \<Rightarrow> vec \<Rightarrow> bool" where
  "solves_reduced fac a freedofs r =
     (matvec (restrict a freedofs) (matvec (fac (restrict a freedofs)) (select freedofs r))
        = select freedofs r)"

section \<open>Meshes, boundary regions and finite-element spaces\<close>

text \<open>
  The mesh comes from the external mesher; the notebooks read its dimension and the
  names of its boundary regions (in the order of the boundary indices).
\<close>

record mesh =
  dim :: nat
  bnd_names :: "string list"

record region =
  reg_mesh :: mesh
  reg_mask :: "bool list"

record fespace =
  fes_mesh :: mesh
  fes_order :: nat
  fes_vdim :: nat
  fes_dirichlet :: "bool list"

text \<open>
  A trial or test function enters an integrand through its value and its gradient at a
  point; the gradient of a vector field is the matrix of rows \<open>grad u\<^sub>i\<close>.
\<close>

record proxy =
  val :: vec
  grad :: mat

text \<open>
  Numbering of the degrees of freedom, quadrature and assembly, interpolation of
  boundary data, mesh generation, the sparse factorisation and the matching of a
  regular expression against the boundary names of a mesh are NGSolve's. They are
  parameters of the model: a record of functions, about which nothing is assumed.
\<close>

record ngsolve =
  GenerateMesh :: "real \<Rightarrow> mesh"
  ndof :: "fespace \<Rightarrow> nat"
  bnd_dofs :: "fespace \<Rightarrow> nat \<Rightarrow> nat list"
  Assemble_bf :: "fespace \<Rightarrow> (proxy \<Rightarrow> proxy \<Rightarrow> pyerror + real) \<Rightarrow> pyerror + mat"
  Assemble_lf :: "fespace \<Rightarrow> (vec \<Rightarrow> proxy \<Rightarrow> real) \<Rightarrow> (vec \<Rightarrow> proxy \<Rightarrow> real) \<Rightarrow> bool list \<Rightarrow> vec"
  Set_gf :: "fespace \<Rightarrow> vec \<Rightarrow> region \<Rightarrow> vec \<Rightarrow> vec"
  factor :: "mat \<Rightarrow> mat"
  regex_mask :: "mesh \<Rightarrow> string \<Rightarrow> pyerror + bool list"

text \<open>
  Region names are given to NGSolve as a regular expression, matched in full against
  the name of every boundary. The notebooks use the pipe-delimited alternation of
  names, for example \<open>''top|bottom|left''\<close>. For a pattern made of letters, digits,
  underscores and pipes only, a boundary matches exactly when its name is one of the
  alternatives, and that case is computed here. For every other pattern the outcome
  (a mask, or the error of a malformed expression) is the kernel's, \<open>regex_mask\<close>.
\<close>

fun split_pipe :: "string \<Rightarrow> string list" where
  "split_pipe [] = [[]]"
| "split_pipe (c # cs) =
     (if c = CHR ''|'' then [] # split_pipe cs
      else (case split_pipe cs of [] \<Rightarrow> [[c]] | w # ws \<Rightarrow> (c # w) # ws))"

definition literal_alternation :: "string \<Rightarrow> bool" where
  "literal_alternation pat =
     list_all (\<lambda>c. c \<in> set ''abcdefghijklmnopqrstuvwxyzABCDEFGHIJKLMNOPQRSTUVWXYZ0123456789_|'') pat"

definition name_mask :: "ngsolve \<Rightarrow> mesh \<Rightarrow> string \<Rightarrow> pyerror + bool list" where
  "name_mask lib m pat =
     (if literal_alternation pat
      then Inr (map (\<lambda>n. n \<in> set (split_pipe pat)) (bnd_names m))
      else regex_mask lib m pat)"

text \<open>\<open>mesh.Boundaries(pattern)\<close> and the constant \<open>BND\<close> (all boundaries).\<close>

definition Boundaries :: "ngsolve \<Rightarrow> mesh \<Rightarrow> string \<Rightarrow> pyerror + region" where
  "Boundaries lib m pat =
     (case name_mask lib m pat of
        Inl e \<Rightarrow> Inl e
      | Inr marks \<Rightarrow> Inr \<lparr>reg_mesh = m, reg_mask = marks\<rparr>)"

definition BND :: "mesh \<Rightarrow> region" where
  "BND m = \<lparr>reg_mesh = m, reg_mask = replicate (length (bnd_names m)) True\<rparr>"

text \<open>
  The space constructors \<open>H1(mesh, order, dirichlet)\<close> and
  \<open>VectorH1(mesh, order, dirichlet)\<close> are NGSolve's. They match the pattern against
  the name of every boundary of the mesh and mark the boundaries that match as
  constrained; a name that matches no boundary marks nothing and raises nothing. The
  notebooks pass the pattern on unchanged and check nothing themselves.
\<close>

definition H1 :: "ngsolve \<Rightarrow> mesh \<Rightarrow> nat \<Rightarrow> string \<Rightarrow> pyerror + fespace" where
  "H1 lib m ord pat =
     (case name_mask lib m pat of
        Inl e \<Rightarrow> Inl e
      | Inr marks \<Rightarrow>
          Inr \<lparr>fes_mesh = m, fes_order = ord, fes_vdim = 1, fes_dirichlet = marks\<rparr>)"

definition VectorH1 :: "ngsolve \<Rightarrow> mesh \<Rightarrow> nat \<Rightarrow> string \<Rightarrow> pyerror + fespace" where
  "VectorH1 lib m ord pat =
     (case name_mask lib m pat of
        Inl e \<Rightarrow> Inl e
      | Inr marks \<Rightarrow>
          Inr \<lparr>fes_mesh = m, fes_order = ord, fes_vdim = dim m, fes_dirichlet = marks\<rparr>)"

section \<open>Pointwise forms\<close>

definition madd :: "mat \<Rightarrow> mat \<Rightarrow> mat" where
  "madd A B = map2 vadd A B"

definition mscale :: "real \<Rightarrow> mat \<Rightarrow> mat" where
  "mscale c A = map (smul c) A"

definition trans_mat :: "mat \<Rightarrow> mat" where
  "trans_mat A =
     (case A of [] \<Rightarrow> [] | r # _ \<Rightarrow> map (\<lambda>j. map (\<lambda>row. row ! j) A) [0..<length r])"

definition Id :: "nat \<Rightarrow> mat" where
  "Id n = map (\<lambda>i. map (\<lambda>j. if i = j then 1 else 0) [0..<n]) [0..<n]"

definition InnerProduct :: "mat \<Rightarrow> mat \<Rightarrow> real" where
  "InnerProduct A B = dot (concat A) (concat B)"

text \<open>
  \<open>cf[i]\<close> with one integer index addresses the components of a matrix-valued
  coefficient function in row-major order and raises \<open>IndexError\<close> past the last one
  (the optimisation notebook was run with \<open>epsilon(u)[2]\<close> on a two-by-two strain, whose
  rows have no index 2).
\<close>

definition getitem :: "mat \<Rightarrow> nat \<Rightarrow> pyerror + real" where
  "getitem A i = (if i < length (concat A) then Inr (concat A ! i) else Inl IndexError)"

text \<open>
  \<^verbatim>\<open>
    epsilon = lambda u: 0.5*(grad(u) + grad(u).trans)
    sigma = lambda u: self.lam*Id(self.mesh.dim) * (epsilon(u)[0]+epsilon(u)[1]+epsilon(u)[2])
                      + 2*self.mu*epsilon(u)
  \<close>
  The optimisation notebook defines the same two functions with the globals \<open>lam\<close>,
  \<open>mu\<close> and \<open>mesh.dim\<close>.
\<close>

definition epsilon :: "mat \<Rightarrow> mat" where
  "epsilon G = mscale (1/2) (madd G (trans_mat G))"

definition sigma :: "real \<Rightarrow> real \<Rightarrow> nat \<Rightarrow> mat \<Rightarrow> pyerror + mat" where
  "sigma lam mu d G =
     (case getitem (epsilon G) 0 of Inl e \<Rightarrow> Inl e | Inr e0 \<Rightarrow>
       (case getitem (epsilon G) 1 of Inl e \<Rightarrow> Inl e | Inr e1 \<Rightarrow>
         (case getitem (epsilon G) 2 of Inl e \<Rightarrow> Inl e | Inr e2 \<Rightarrow>
            Inr (madd (mscale (e0 + e1 + e2) (mscale lam (Id d)))
                      (mscale (2 * mu) (epsilon G))))))"

text \<open>The stress of the specification, \<open>\<lambda> tr(\<epsilon>) I + 2 \<mu> \<epsilon>\<close>, for comparison.\<close>

definition trace :: "mat \<Rightarrow> real" where
  "trace A = sum_list (map (\<lambda>i. entry A i i) [0..<length A])"

definition sigma_spec :: "real \<Rightarrow> real \<Rightarrow> nat \<Rightarrow> mat \<Rightarrow> mat" where
  "sigma_spec lam mu d G =
     madd (mscale (lam * trace (epsilon G)) (Id d)) (mscale (2 * mu) (epsilon G))"

text \<open>\<open>InnerProduct(sigma(u), epsilon(v))\<close>, the integrand of the bilinear form.\<close>

definition EquationFA :: "real \<Rightarrow> real \<Rightarrow> nat \<Rightarrow> proxy \<Rightarrow> proxy \<Rightarrow> pyerror + real" where
  "EquationFA lam mu d u v =
     (case sigma lam mu d (grad u) of Inl e \<Rightarrow> Inl e
      | Inr s \<Rightarrow> Inr (InnerProduct s (epsilon (grad v))))"

section \<open>Free degrees of freedom\<close>

text \<open>
  \<open>fes.FreeDofs()\<close>: a degree of freedom is free unless it lies on a boundary that the
  space constrains.
\<close>

definition FreeDofs :: "ngsolve \<Rightarrow> fespace \<Rightarrow> bool list" where
  "FreeDofs lib V =
     map (\<lambda>d. \<not> list_ex (\<lambda>k. fes_dirichlet V ! k \<and> d \<in> set (bnd_dofs lib V k))
                         [0..<length (fes_dirichlet V)])
         [0..<ndof lib V]"

section \<open>The Poisson demonstration: \<open>main\<close>\<close>

definition main :: "ngsolve \<Rightarrow> nat \<Rightarrow> real \<Rightarrow> pyerror + vec \<times> mesh" where
  "main lib ord maxh =
     (let m = GenerateMesh lib maxh
      in case H1 lib m ord ''bottom|right|top|left'' of
           Inl e \<Rightarrow> Inl e
         | Inr fes \<Rightarrow>
            (case Assemble_bf lib fes
                    (\<lambda>u v. Inr (InnerProduct (grad u) (grad v) + dot (val u) (val v))) of
               Inl e \<Rightarrow> Inl e
             | Inr a \<Rightarrow>
                 (let f = Assemble_lf lib fes (\<lambda>x v. dot [1] (val v)) (\<lambda>x v. 0) [];
                      g = 0;
                      u0 = Set_gf lib fes [g] (BND m) (zeros (ndof lib fes))
                  in Inr (dirichlet_solve (factor lib) a f (FreeDofs lib fes) u0, m))))"

section \<open>The elasticity problem: class \<open>Beam\<close>\<close>

text \<open>
  Attributes of a Python object exist once they are assigned: the derived attributes
  \<open>V\<close>, \<open>a\<close>, \<open>f\<close>, \<open>gfu\<close> are optional, and so are \<open>freebnd\<close> and \<open>fixedbnd\<close>, which
  the constructor assigns only for meshes of dimension 2 or 3. The symbolic trial and
  test functions \<open>self.u\<close>, \<open>self.v\<close> carry no data and appear as the arguments of the
  integrands. The body force and the traction are functions of the point.
\<close>

record beam =
  self_mesh :: mesh
  self_order :: nat
  self_lam :: real
  self_mu :: real
  self_b :: "vec \<Rightarrow> vec"
  self_T :: "vec \<Rightarrow> vec"
  self_freebnd :: "string option"
  self_fixedbnd :: "string option"
  self_V :: "fespace option"
  self_a :: "mat option"
  self_f :: "vec option"
  self_gfu :: "vec option"

text \<open>
  The module globals the class reads and writes: \<open>mesh\<close> (read by \<open>solve_system\<close>),
  and \<open>sigma\<close>, \<open>epsilon\<close> (rebound by \<open>define_forms\<close>).
\<close>

record globals =
  g_mesh :: "mesh option"
  g_sigma :: "(mat \<Rightarrow> pyerror + mat) option"
  g_epsilon :: "(mat \<Rightarrow> mat) option"

definition Beam :: "mesh \<Rightarrow> nat \<Rightarrow> real \<Rightarrow> real \<Rightarrow> (vec \<Rightarrow> vec) \<Rightarrow> (vec \<Rightarrow> vec) \<Rightarrow> beam" where
  "Beam m ord lam mu b T =
     \<lparr>self_mesh = m, self_order = ord, self_lam = lam, self_mu = mu, self_b = b, self_T = T,
      self_freebnd = (if dim m = 3 then Some ''top|bottom|left|right|end''
                      else if dim m = 2 then Some ''top|bottom|right'' else None),
      self_fixedbnd = (if dim m = 3 then Some ''wall''
                       else if dim m = 2 then Some ''left'' else None),
      self_V = None, self_a = None, self_f = None, self_gfu = None\<rparr>"

definition define_space :: "ngsolve \<Rightarrow> beam \<Rightarrow> pyerror + beam" where
  "define_space lib self =
     (case self_fixedbnd self of
        None \<Rightarrow> Inl (AttributeError ''fixedbnd'')
      | Some fixed \<Rightarrow>
         (case VectorH1 lib (self_mesh self) (self_order self) fixed of
            Inl e \<Rightarrow> Inl e
          | Inr V \<Rightarrow> Inr (self\<lparr>self_V := Some V\<rparr>)))"

definition define_forms :: "ngsolve \<Rightarrow> globals \<times> beam \<Rightarrow> pyerror + globals \<times> beam" where
  "define_forms lib gs =
     (let g = fst gs; self = snd gs;
          g1 = g\<lparr>g_sigma := Some (sigma (self_lam self) (self_mu self) (dim (self_mesh self))),
                 g_epsilon := Some epsilon\<rparr>
      in case self_V self of
           None \<Rightarrow> Inl (AttributeError ''V'')
         | Some V \<Rightarrow>
            (case Assemble_bf lib V
                    (EquationFA (self_lam self) (self_mu self) (dim (self_mesh self))) of
               Inl e \<Rightarrow> Inl e
             | Inr a \<Rightarrow>
                (case self_freebnd self of
                   None \<Rightarrow> Inl (AttributeError ''freebnd'')
                 | Some free \<Rightarrow>
                    (case name_mask lib (fes_mesh V) free of
                       Inl e \<Rightarrow> Inl e
                     | Inr marks \<Rightarrow>
                         Inr (g1, self\<lparr>self_a := Some a,
                                       self_f := Some (Assemble_lf lib V
                                          (\<lambda>x v. dot (self_b self x) (val v))
                                          (\<lambda>x v. dot (self_T self x) (val v))
                                          marks)\<rparr>)))))"

text \<open>
  \<^verbatim>\<open>
    self.gfu = GridFunction(self.V)
    self.gfu.Set(tuple([0 for _ in range(self.mesh.dim)]),
                 definedon = mesh.Boundaries(self.fixedbnd))
  \<close>
  The region comes from the global name \<open>mesh\<close>.
\<close>

definition solve_system :: "ngsolve \<Rightarrow> globals \<times> beam \<Rightarrow> pyerror + globals \<times> beam" where
  "solve_system lib gs =
     (let g = fst gs; self = snd gs
      in case self_V self of
           None \<Rightarrow> Inl (AttributeError ''V'')
         | Some V \<Rightarrow>
            (case g_mesh g of
               None \<Rightarrow> Inl (NameError ''mesh'')
             | Some gm \<Rightarrow>
                (case self_fixedbnd self of
                   None \<Rightarrow> Inl (AttributeError ''fixedbnd'')
                 | Some fixed \<Rightarrow>
                    (case Boundaries lib gm fixed of
                       Inl e \<Rightarrow> Inl e
                     | Inr reg \<Rightarrow>
                        (case self_f self of
                           None \<Rightarrow> Inl (AttributeError ''f'')
                         | Some f \<Rightarrow>
                            (case self_a self of
                               None \<Rightarrow> Inl (AttributeError ''a'')
                             | Some a \<Rightarrow>
                                (let u0 = Set_gf lib V (replicate (dim (self_mesh self)) 0) reg
                                            (zeros (ndof lib V))
                                 in Inr (g, self\<lparr>self_gfu := Some
                                      (dirichlet_solve (factor lib) a f (FreeDofs lib V) u0)\<rparr>))))))))"

text \<open>
  The same method with the region taken from the instance's own mesh, \<open>self.mesh\<close>, for
  comparison.
\<close>

definition solve_system_self :: "ngsolve \<Rightarrow> globals \<times> beam \<Rightarrow> pyerror + globals \<times> beam" where
  "solve_system_self lib gs =
     (let g = fst gs; self = snd gs
      in case self_V self of
           None \<Rightarrow> Inl (AttributeError ''V'')
         | Some V \<Rightarrow>
            (case self_fixedbnd self of
               None \<Rightarrow> Inl (AttributeError ''fixedbnd'')
             | Some fixed \<Rightarrow>
                (case Boundaries lib (self_mesh self) fixed of
                   Inl e \<Rightarrow> Inl e
                 | Inr reg \<Rightarrow>
                    (case self_f self of
                       None \<Rightarrow> Inl (AttributeError ''f'')
                     | Some f \<Rightarrow>
                        (case self_a self of
                           None \<Rightarrow> Inl (AttributeError ''a'')
                         | Some a \<Rightarrow>
                            (let u0 = Set_gf lib V (replicate (dim (self_mesh self)) 0) reg
                                        (zeros (ndof lib V))
                             in Inr (g, self\<lparr>self_gfu := Some
                                  (dirichlet_solve (factor lib) a f (FreeDofs lib V) u0)\<rparr>)))))))"

text \<open>\<open>solve(draw = False)\<close>; drawing is outside the model.\<close>

definition solve :: "ngsolve \<Rightarrow> globals \<times> beam \<Rightarrow> pyerror + globals \<times> beam" where
  "solve lib gs =
     (case define_space lib (snd gs) of
        Inl e \<Rightarrow> Inl e
      | Inr self1 \<Rightarrow>
         (case define_forms lib (fst gs, self1) of
            Inl e \<Rightarrow> Inl e
          | Inr gs2 \<Rightarrow> solve_system lib gs2))"

section \<open>The shape-optimisation notebook\<close>

text \<open>
  The cells of the notebook work on module globals. The grid functions \<open>gfu\<close>, \<open>gfp\<close>,
  \<open>gfX\<close> and \<open>gfset\<close> are objects: a variable holds a reference, and the vectors
  live in a store indexed by references, so that two names may denote one object. The
  mesh keeps the reference handed to \<open>mesh.SetDeformation\<close>. The assembled forms
  \<open>aAuto.mat\<close>, \<open>fadjoint.vec\<close>, \<open>b.mat\<close> and \<open>dJOmegaAuto.vec\<close> are part of
  the state, written by the calls that assemble them. The variables \<open>scale\<close>,
  \<open>gfsetOld\<close> and \<open>Jnew\<close> are assigned in every iteration before they are read.
\<close>

record state =
  heap :: "nat \<Rightarrow> vec"
  gfu :: nat
  gfp :: nat
  gfX :: nat
  gfset :: nat
  gfsetOld :: nat
  deformation :: "nat option"
  aAuto :: mat
  fadjoint :: vec
  b_mat :: mat
  dJOmegaAuto :: vec
  scale :: real
  Jold :: real
  Jnew :: real
  converged :: bool
  loop_k :: nat
  iteracion :: "nat list"
  objetivo :: "real list"

text \<open>
  The kernels of the optimisation cells: the Newton solve of the state equation on the
  deformed mesh (it returns the state vector and leaves the linearisation in
  \<open>aAuto.mat\<close>), the assembly of the adjoint load, of the smoothing form and of the
  shape derivative, the degrees of freedom of the two spaces, the factorisation and the
  integration of a cost integrand. \<open>VEC_ndof\<close> is the number of degrees of freedom of one
  component of the deformation space and \<open>VEC_bnd_dofs\<close> gives those of a component
  (numbers below \<open>VEC_ndof\<close>) that lie on a named boundary.
\<close>

record shapelib =
  Newton :: "vec \<Rightarrow> vec \<Rightarrow> vec \<times> mat"
  Assemble_fadjoint :: "vec \<Rightarrow> vec \<Rightarrow> vec"
  Assemble_b :: "vec \<Rightarrow> mat"
  Assemble_dJOmegaAuto :: "vec \<Rightarrow> vec \<Rightarrow> vec \<Rightarrow> vec"
  fes_FreeDofs :: "bool list"
  VEC_FreeDofs :: "bool list"
  VEC_ndof :: nat
  VEC_bnd_dofs :: "string \<Rightarrow> nat list"
  sparse_factor :: "mat \<Rightarrow> mat"
  Integrate :: "(mat \<Rightarrow> pyerror + real) \<Rightarrow> vec \<Rightarrow> vec \<Rightarrow> pyerror + real"

type_synonym outcome = "(pyerror \<times> state) + state"

definition final_state :: "outcome \<Rightarrow> state" where
  "final_state r = (case r of Inl es \<Rightarrow> snd es | Inr s \<Rightarrow> s)"

definition current_deformation :: "state \<Rightarrow> vec" where
  "current_deformation s = (case deformation s of None \<Rightarrow> [] | Some r \<Rightarrow> heap s r)"

text \<open>
  \<^verbatim>\<open>
    def CostAutoFA(u): return InnerProduct(sigma(u),epsilon(u))*dx
    def CostAuto2(u):  return CostAutoFA(u)
  \<close>
  with \<open>lam = 1000\<close>, \<open>mu = 1000\<close> and the two-dimensional mesh of the notebook.
\<close>

definition CostAutoFA :: "mat \<Rightarrow> pyerror + real" where
  "CostAutoFA G =
     (case sigma 1000 1000 2 G of Inl e \<Rightarrow> Inl e | Inr s \<Rightarrow> Inr (InnerProduct s (epsilon G)))"

definition CostAuto2 :: "mat \<Rightarrow> pyerror + real" where
  "CostAuto2 G = CostAutoFA G"

text \<open>
  The cost evaluators that the notebook defines, by name. There is no \<open>CostAuto\<close>.
\<close>

definition notebook_globals :: "string \<Rightarrow> (mat \<Rightarrow> pyerror + real) option" where
  "notebook_globals =
     [''CostAutoFA'' \<mapsto> CostAutoFA, ''CostAuto2'' \<mapsto> CostAuto2]"

text \<open>\<open>Integrate(<name>(gfu), mesh)\<close>: the name is looked up when the call is reached.\<close>

definition evaluate_cost ::
  "shapelib \<Rightarrow> (string \<Rightarrow> (mat \<Rightarrow> pyerror + real) option) \<Rightarrow> string \<Rightarrow> state \<Rightarrow> pyerror + real" where
  "evaluate_cost L G name s =
     (case G name of
        None \<Rightarrow> Inl (NameError name)
      | Some cost \<Rightarrow> Integrate L cost (current_deformation s) (heap s (gfu s)))"

text \<open>\<open>gfu.vec[:]=0; Newton(aAuto, gfu, fes.FreeDofs(), printing = False)\<close>\<close>

definition solve_state :: "shapelib \<Rightarrow> state \<Rightarrow> state" where
  "solve_state L s =
     (let s1 = s\<lparr>heap := (heap s)(gfu s := zeros (length (heap s (gfu s))))\<rparr>;
          r = Newton L (current_deformation s1) (heap s1 (gfu s1))
      in s1\<lparr>heap := (heap s1)(gfu s1 := fst r), aAuto := snd r\<rparr>)"

text \<open>
  \<^verbatim>\<open>
    def SolveAdjointEquation():
        rhs = gfp.vec.CreateVector()
        rhs.data = fadjoint.vec - aAuto.mat.T * gfp.vec
        update = gfp.vec.CreateVector()
        update.data = aAuto.mat.Inverse(fes.FreeDofs()).T * rhs
        gfp.vec.data += update
  \<close>
\<close>

definition SolveAdjointEquation :: "shapelib \<Rightarrow> state \<Rightarrow> state" where
  "SolveAdjointEquation L s =
     (let rhs = vsub (fadjoint s) (matvec (trans_mat (aAuto s)) (heap s (gfp s)));
          update = matvec (trans_mat (Inverse (sparse_factor L) (aAuto s) (fes_FreeDofs L))) rhs
      in s\<lparr>heap := (heap s)(gfp s := vadd (heap s (gfp s)) update)\<rparr>)"

text \<open>
  \<^verbatim>\<open>
    def SolveDeformationEquationAuto():
        rhs = gfX.vec.CreateVector()
        rhs.data = dJOmegaAuto.vec - b.mat * gfX.vec
        update = gfX.vec.CreateVector()
        update.data = b.mat.Inverse(VEC.FreeDofs()) * rhs
        gfX.vec.data += update
  \<close>
\<close>

definition SolveDeformationEquationAuto :: "shapelib \<Rightarrow> state \<Rightarrow> state" where
  "SolveDeformationEquationAuto L s =
     (let rhs = vsub (dJOmegaAuto s) (matvec (b_mat s) (heap s (gfX s)));
          update = matvec (Inverse (sparse_factor L) (b_mat s) (VEC_FreeDofs L)) rhs
      in s\<lparr>heap := (heap s)(gfX s := vadd (heap s (gfX s)) update)\<rparr>)"

text \<open>
  The head of the loop body: the bookkeeping of the objective plot, the deformation of
  the mesh, the state solve, the adjoint solve and the deformation solve.
  \<^verbatim>\<open>
    iteracion.append(k); objetivo.append(Jold)
    mesh.SetDeformation(gfset)
    gfu.vec[:]=0
    Newton(aAuto, gfu, fes.FreeDofs(), printing = False)
    fadjoint.Assemble()
    SolveAdjointEquation()
    b.Assemble()
    dJOmegaAuto.Assemble()
    SolveDeformationEquationAuto()
  \<close>
\<close>

definition solve_equations :: "shapelib \<Rightarrow> nat \<Rightarrow> state \<Rightarrow> state" where
  "solve_equations L k s =
     (let s1 = s\<lparr>loop_k := k, iteracion := iteracion s @ [k], objetivo := objetivo s @ [Jold s]\<rparr>;
          s2 = s1\<lparr>deformation := Some (gfset s1)\<rparr>;
          s3 = solve_state L s2;
          s4 = s3\<lparr>fadjoint := Assemble_fadjoint L (current_deformation s3) (heap s3 (gfu s3))\<rparr>;
          s5 = SolveAdjointEquation L s4;
          s6 = s5\<lparr>b_mat := Assemble_b L (current_deformation s5)\<rparr>;
          s7 = s6\<lparr>dJOmegaAuto := Assemble_dJOmegaAuto L (current_deformation s6)
                                    (heap s6 (gfu s6)) (heap s6 (gfp s6))\<rparr>
      in SolveDeformationEquationAuto L s7)"

text \<open>
  \<open>gf.components[c].Set(0, definedon = name)\<close>: component \<open>c\<close> of a vector-valued grid
  function occupies the block of \<open>VEC_ndof\<close> indices from \<open>c * VEC_ndof\<close>. \<open>Set\<close>
  restricts its work to a region only when \<open>definedon\<close> is a Region object; the
  notebook passes the name, a string, which \<open>Set\<close> ignores, so the call interpolates
  the constant 0 on the whole domain and writes zero to every degree of freedom of the
  component.
\<close>

definition component_Set0 :: "shapelib \<Rightarrow> nat \<Rightarrow> string \<Rightarrow> vec \<Rightarrow> vec" where
  "component_Set0 L c name v = fold (\<lambda>d w. w[c * VEC_ndof L + d := 0]) [0..<VEC_ndof L] v"

text \<open>
  The update of the deformation:
  \<^verbatim>\<open>
    scale = 0.01 / Norm(gfX.vec)
    gfsetOld = gfset
    gfset.vec.data -= scale * gfX.vec
    gfset.components[0].Set(0, definedon = 'left')
    gfset.components[0].Set(0, definedon = 'right')
  \<close>
  \<open>Norm\<close> returns a Python float, and dividing a float by zero raises
  \<open>ZeroDivisionError\<close>. The assignment \<open>gfsetOld = gfset\<close> copies the reference.
\<close>

definition update_gfset :: "shapelib \<Rightarrow> state \<Rightarrow> outcome" where
  "update_gfset L s =
     (if Norm (heap s (gfX s)) = 0 then Inl (ZeroDivisionError, s)
      else
        (let s1 = s\<lparr>scale := (1 / 100) / Norm (heap s (gfX s))\<rparr>;
             s2 = s1\<lparr>gfsetOld := gfset s1\<rparr>;
             s3 = s2\<lparr>heap := (heap s2)(gfset s2 :=
                         vsub (heap s2 (gfset s2)) (smul (scale s2) (heap s2 (gfX s2))))\<rparr>;
             s4 = s3\<lparr>heap := (heap s3)(gfset s3 :=
                         component_Set0 L 0 ''left'' (heap s3 (gfset s3)))\<rparr>;
             s5 = s4\<lparr>heap := (heap s4)(gfset s4 :=
                         component_Set0 L 0 ''right'' (heap s4 (gfset s4)))\<rparr>
         in Inr s5))"

text \<open>
  The line search:
  \<^verbatim>\<open>
    while Jnew > Jold and scale > 1e-12:
        scale = scale / 2
        if scale <= 1e-7:
            converged = True
            break
        gfset.vec.data = gfsetOld.vec - scale * gfX.vec
        mesh.SetDeformation(gfset)
        gfu.vec[:]=0
        Newton(aAuto, gfu, fes.FreeDofs(), printing = False)
        Jnew = Integrate(CostAuto(gfu), mesh)
  \<close>
  The loop may in principle run forever, so its model returns an option and \<open>None\<close>
  stands for not returning. The table of cost evaluators is a parameter; the notebook
  runs with \<open>notebook_globals\<close>.
\<close>

partial_function (option) line_search ::
  "shapelib \<Rightarrow> (string \<Rightarrow> (mat \<Rightarrow> pyerror + real) option) \<Rightarrow> state \<Rightarrow> outcome option" where
  "line_search L G s =
     (if Jnew s > Jold s \<and> scale s > 1 / 10 ^ 12 then
        (let s1 = s\<lparr>scale := scale s / 2\<rparr>
         in if scale s1 \<le> 1 / 10 ^ 7 then Some (Inr (s1\<lparr>converged := True\<rparr>))
            else
              (let s2 = s1\<lparr>heap := (heap s1)(gfset s1 :=
                           vsub (heap s1 (gfsetOld s1)) (smul (scale s1) (heap s1 (gfX s1))))\<rparr>;
                   s3 = s2\<lparr>deformation := Some (gfset s2)\<rparr>;
                   s4 = solve_state L s3
               in case evaluate_cost L G ''CostAuto'' s4 of
                    Inl e \<Rightarrow> Some (Inl (e, s4))
                  | Inr J \<Rightarrow> line_search L G (s4\<lparr>Jnew := J\<rparr>)))
      else Some (Inr s))"

text \<open>
  One pass through the loop body, up to the test \<open>if converged==True: break\<close>; a state
  with \<open>converged\<close> set leaves the loop, any other continues with \<open>Jold = Jnew\<close>.
  Export and redrawing are outside the model.
\<close>

definition iteration ::
  "shapelib \<Rightarrow> (string \<Rightarrow> (mat \<Rightarrow> pyerror + real) option) \<Rightarrow> bool \<Rightarrow> nat \<Rightarrow> state \<Rightarrow> outcome option" where
  "iteration L G LineSearch k s =
     (case update_gfset L (solve_equations L k s) of
        Inl es \<Rightarrow> Some (Inl es)
      | Inr s1 \<Rightarrow>
         (case evaluate_cost L G ''CostAuto2'' s1 of
            Inl e \<Rightarrow> Some (Inl (e, s1))
          | Inr J \<Rightarrow>
             (if LineSearch then line_search L G (s1\<lparr>Jnew := J\<rparr>)
              else Some (Inr (s1\<lparr>Jnew := J\<rparr>)))))"

text \<open>\<open>for k in range(iter_max): ...\<close>\<close>

fun optimize_loop ::
  "shapelib \<Rightarrow> (string \<Rightarrow> (mat \<Rightarrow> pyerror + real) option) \<Rightarrow> bool \<Rightarrow> nat list \<Rightarrow> state \<Rightarrow> outcome option" where
  "optimize_loop L G LineSearch [] s = Some (Inr s)"
| "optimize_loop L G LineSearch (k # ks) s =
     (case iteration L G LineSearch k s of
        None \<Rightarrow> None
      | Some (Inl es) \<Rightarrow> Some (Inl es)
      | Some (Inr s1) \<Rightarrow>
         (if converged s1 then Some (Inr s1)
          else optimize_loop L G LineSearch ks (s1\<lparr>Jold := Jnew s1\<rparr>)))"

text \<open>
  The optimisation cell from its first statement. The notebook fixes
  \<open>LineSearch = False\<close> and \<open>iter_max = 1000\<close>; both are parameters here.
  \<^verbatim>\<open>
    gfset.Set((0,0))
    mesh.SetDeformation(gfset)
    gfu.vec[:]=0
    Newton(aAuto, gfu, fes.FreeDofs())
    Jold = Integrate(CostAuto2(gfu), mesh)
    converged = False
    iteracion = []; objetivo = []
    for k in range(iter_max): ...
  \<close>
\<close>

definition optimize ::
  "shapelib \<Rightarrow> (string \<Rightarrow> (mat \<Rightarrow> pyerror + real) option) \<Rightarrow> bool \<Rightarrow> nat \<Rightarrow> state \<Rightarrow> outcome option" where
  "optimize L G LineSearch iter_max s =
     (let s1 = s\<lparr>heap := (heap s)(gfset s := zeros (length (heap s (gfset s))))\<rparr>;
          s2 = s1\<lparr>deformation := Some (gfset s1)\<rparr>;
          s3 = solve_state L s2
      in case evaluate_cost L G ''CostAuto2'' s3 of
           Inl e \<Rightarrow> Some (Inl (e, s3))
         | Inr J \<Rightarrow>
             optimize_loop L G LineSearch [0..<iter_max]
               (s3\<lparr>Jold := J, converged := False, iteracion := [], objetivo := []\<rparr>))"

section \<open>Example data\<close>

text \<open>
  Small instances of the kernels, of a mesh and of the notebook state, on which the
  definitions above are evaluated. In \<open>ex_lib c\<close> the deformation space has one degree
  of freedom per component, lying on the boundary \<open>left\<close>; the shape derivative is the
  constant vector \<open>(0, c)\<close>; the state solve returns the current deformation and the
  objective is its squared norm.
\<close>

definition ex_lib :: "real \<Rightarrow> shapelib" where
  "ex_lib c =
     \<lparr>Newton = (\<lambda>def u. (def, [])),
      Assemble_fadjoint = (\<lambda>def u. []),
      Assemble_b = (\<lambda>def. Id 2),
      Assemble_dJOmegaAuto = (\<lambda>def u p. [0, c]),
      fes_FreeDofs = [],
      VEC_FreeDofs = [True, True],
      VEC_ndof = 1,
      VEC_bnd_dofs = (\<lambda>name. if name = ''left'' then [0] else []),
      sparse_factor = (\<lambda>A. A),
      Integrate = (\<lambda>cost def u. Inr (dot def def))\<rparr>"

definition ex_state :: state where
  "ex_state =
     \<lparr>heap = (\<lambda>r. [0, 0]),
      gfu = 0, gfp = 1, gfX = 2, gfset = 3, gfsetOld = 3, deformation = None,
      aAuto = [], fadjoint = [], b_mat = [], dJOmegaAuto = [],
      scale = 0, Jold = 0, Jnew = 0, converged = False, loop_k = 0,
      iteracion = [], objetivo = []\<rparr>"

definition raised :: "outcome \<Rightarrow> pyerror option" where
  "raised r = (case r of Inl es \<Rightarrow> Some (fst es) | Inr s \<Rightarrow> None)"

definition final_gfset :: "outcome \<Rightarrow> vec" where
  "final_gfset r = heap (final_state r) (gfset (final_state r))"

definition ex_mesh :: mesh where
  "ex_mesh = \<lparr>dim = 2, bnd_names = [''left'', ''top'', ''bottom'', ''right'']\<rparr>"

definition ex_mesh3 :: mesh where
  "ex_mesh3 = \<lparr>dim = 3, bnd_names = [''top'', ''bottom'', ''end'']\<rparr>"

definition ex_ngsolve :: ngsolve where
  "ex_ngsolve =
     \<lparr>GenerateMesh = (\<lambda>h. ex_mesh),
      ndof = (\<lambda>V. 2),
      bnd_dofs = (\<lambda>V k. if k = 0 then [0] else []),
      Assemble_bf = (\<lambda>V a.
         case a \<lparr>val = [1, 0], grad = [[1, 0], [0, 0]]\<rparr>
                \<lparr>val = [1, 0], grad = [[1, 0], [0, 0]]\<rparr> of
           Inl e \<Rightarrow> Inl e
         | Inr x \<Rightarrow> Inr [[x, 0], [0, x]]),
      Assemble_lf = (\<lambda>V fv fb marks.
         [fv [0, 0] \<lparr>val = [1, 0], grad = []\<rparr> + fb [0, 0] \<lparr>val = [1, 0], grad = []\<rparr>,
          fv [0, 0] \<lparr>val = [0, 1], grad = []\<rparr> + fb [0, 0] \<lparr>val = [0, 1], grad = []\<rparr>]),
      Set_gf = (\<lambda>V vals reg v. v),
      factor = (\<lambda>A. map (map inverse) A),
      regex_mask = (\<lambda>m pat. Inl (RuntimeError ''regex''))\<rparr>"

text \<open>
  A kernel whose interpolation shows the region it is given: it adds one to every
  entry unless the first boundary of the region is selected. And a second mesh, with
  the boundaries of \<open>ex_mesh\<close> in another order.
\<close>

definition ex_ngsolve_region :: ngsolve where
  "ex_ngsolve_region =
     ex_ngsolve\<lparr>Set_gf := (\<lambda>V vals reg v.
        if reg_mask reg ! 0 then v else map (\<lambda>x. x + 1) v)\<rparr>"

definition ex_mesh_other :: mesh where
  "ex_mesh_other = \<lparr>dim = 2, bnd_names = [''bottom'', ''right'', ''top'', ''left'']\<rparr>"

definition ex_globals :: globals where
  "ex_globals = \<lparr>g_mesh = Some ex_mesh, g_sigma = None, g_epsilon = None\<rparr>"

definition ex_beam :: beam where
  "ex_beam = Beam ex_mesh 2 1000 1000 (\<lambda>x. [0, - 1]) (\<lambda>x. [0, 0])"

definition ex_beam3 :: beam where
  "ex_beam3 = Beam ex_mesh3 2 1000 1000 (\<lambda>x. [0, 0, 0]) (\<lambda>x. [0, - (1 / 2), 0])"

definition ex_solved :: "globals \<times> beam" where
  "ex_solved =
     (ex_globals\<lparr>g_sigma := Some (sigma 1000 1000 2), g_epsilon := Some epsilon\<rparr>,
      ex_beam\<lparr>self_V := Some \<lparr>fes_mesh = ex_mesh, fes_order = 2, fes_vdim = 2,
                               fes_dirichlet = [True, False, False, False]\<rparr>,
              self_a := Some [[3000, 0], [0, 3000]],
              self_f := Some [0, - 1],
              self_gfu := Some [0, - (1 / 3000)]\<rparr>)"

definition constrained_boundaries :: "pyerror + beam \<Rightarrow> pyerror + bool list option" where
  "constrained_boundaries r =
     (case r of Inl e \<Rightarrow> Inl e | Inr self \<Rightarrow> Inr (map_option fes_dirichlet (self_V self)))"

text \<open>
  A kernel with the shape derivative \<open>(3, 4)\<close>, which moves the first component, and
  one with four degrees of freedom per component.
\<close>

definition ex_lib2 :: shapelib where
  "ex_lib2 = (ex_lib 4)\<lparr>Assemble_dJOmegaAuto := (\<lambda>def u p. [3, 4])\<rparr>"

definition ex_lib4 :: shapelib where
  "ex_lib4 = (ex_lib 1)\<lparr>VEC_ndof := 4,
       VEC_bnd_dofs := (\<lambda>name. if name = ''left'' then [0, 2] else [])\<rparr>"


definition ex_probe :: state where
  "ex_probe = ex_state\<lparr>Jnew := 1, scale := 1 / 10 ^ 7\<rparr>"

definition replace_mesh :: "mesh \<Rightarrow> pyerror + globals \<times> beam \<Rightarrow> pyerror + globals \<times> beam" where
  "replace_mesh m r =
     (case r of Inl e \<Rightarrow> Inl e | Inr gs \<Rightarrow> Inr (fst gs, (snd gs)\<lparr>self_mesh := m\<rparr>))"

definition solution_of :: "pyerror + globals \<times> beam \<Rightarrow> pyerror + vec option" where
  "solution_of r = (case r of Inl e \<Rightarrow> Inl e | Inr gs \<Rightarrow> Inr (self_gfu (snd gs)))"

definition ex_shear :: proxy where
  "ex_shear = \<lparr>val = [0, 0, 0], grad = [[0, 1, 0], [0, 0, 0], [0, 0, 0]]\<rparr>"

definition ex_stretch :: proxy where
  "ex_stretch = \<lparr>val = [0, 0, 0], grad = [[1, 0, 0], [0, 0, 0], [0, 0, 0]]\<rparr>"

section \<open>Results\<close>

subsection \<open>Evaluation on the example data\<close>

lemma upt2: "[0..<2] = [0, Suc 0]"
  by (simp add: upt_rec)

lemma upt3: "[0..<3] = [0, Suc 0, 2]"
  by (simp add: upt_rec)

lemma upt4: "[0..<4] = [0, Suc 0, 2, 3]"
  by (simp add: upt_rec)

lemma replicate2: "replicate 2 x = [x, x]"
  by (simp add: numeral_2_eq_2)

lemma Norm_pair: "Norm [0, c] = \<bar>c\<bar>"
  by (simp add: Norm_def dot_def)

lemma Norm_3_4: "Norm [3, 4] = 5"
  using real_sqrt_abs [of 5] by (simp add: Norm_def dot_def)

lemmas linalg_defs =
  zeros_def vsub_def vadd_def smul_def matvec_def dot_def Inverse_def Id_def trans_mat_def
  entry_def rank_def restrict_def select_def madd_def mscale_def InnerProduct_def upt2
  replicate2

lemmas driver_defs =
  solve_equations_def SolveDeformationEquationAuto_def SolveAdjointEquation_def
  solve_state_def Let_def current_deformation_def update_gfset_def component_Set0_def
  evaluate_cost_def notebook_globals_def iteration_def optimize_def final_state_def
  raised_def final_gfset_def ex_lib_def ex_lib2_def ex_state_def Norm_pair Norm_3_4

subsection \<open>The restricted inverse\<close>

lemma sum_list_all_zero: "set xs \<subseteq> {0::real} \<Longrightarrow> sum_list xs = 0"
  by (induction xs) auto

lemma dot_zero_row:
  assumes z: "set row \<subseteq> {0}"
  shows "dot row x = 0"
proof -
  have "set (map2 (*) row x) \<subseteq> {0}"
  proof
    fix y assume "y \<in> set (map2 (*) row x)"
    then obtain a b where ab: "(a, b) \<in> set (zip row x)" and y: "y = a * b"
      by auto
    from ab have "a \<in> set row" by (rule set_zip_leftD)
    with z have "a = 0" by auto
    with y show "y \<in> {0}" by simp
  qed
  then show ?thesis unfolding dot_def by (rule sum_list_all_zero)
qed

lemma Norm_zeros: "Norm (zeros n) = 0"
proof -
  have "dot (replicate n 0) (replicate n 0) = 0"
    by (rule dot_zero_row) auto
  then show ?thesis by (simp add: Norm_def zeros_def)
qed

lemma Inverse_length: "length (Inverse fac A F) = length F"
  by (simp add: Inverse_def)

lemma dot_Nil [simp]: "dot [] y = 0" "dot x [] = 0"
  by (simp_all add: dot_def)

lemma dot_Cons [simp]: "dot (x # xs) (y # ys) = x * y + dot xs ys"
  by (simp add: dot_def)

lemma dot_commute: "dot x y = dot y x"
proof (induction x arbitrary: y)
  case Nil
  show ?case by simp
next
  case (Cons a x)
  then show ?case by (cases y) simp_all
qed

lemma dot_vadd_right: "length y = length z \<Longrightarrow> dot x (vadd y z) = dot x y + dot x z"
proof (induction x arbitrary: y z)
  case Nil
  show ?case by simp
next
  case (Cons a x)
  show ?case
  proof (cases y)
    case Nil
    with Cons.prems show ?thesis by (simp add: vadd_def)
  next
    case (Cons b y')
    with Cons.prems obtain c z' where z: "z = c # z'" and len: "length y' = length z'"
      by (cases z) auto
    from Cons.IH [OF len] have "dot x (vadd y' z') = dot x y' + dot x z'" .
    with Cons z show ?thesis by (simp add: vadd_def algebra_simps)
  qed
qed

lemma select_simps [simp]:
  "select [] xs = []" "select F [] = []"
  "select (b # F) (x # xs) = (if b then x # select F xs else select F xs)"
  by (simp_all add: select_def)

lemma rank_0 [simp]: "rank F 0 = 0"
  by (simp add: rank_def)

lemma rank_Suc [simp]: "rank (b # F) (Suc i) = (if b then Suc (rank F i) else rank F i)"
  by (simp add: rank_def)

lemma length_select: "length xs = length F \<Longrightarrow> length (select F xs) = length (filter id F)"
proof (induction F arbitrary: xs)
  case Nil
  then show ?case by simp
next
  case (Cons b F)
  then show ?case by (cases xs) auto
qed

lemma select_nth:
  "length xs = length F \<Longrightarrow> i < length F \<Longrightarrow> F ! i \<Longrightarrow>
     rank F i < length (filter id F) \<and> select F xs ! rank F i = xs ! i"
proof (induction F arbitrary: xs i)
  case Nil
  then show ?case by simp
next
  case (Cons b F)
  then obtain x xs' where xs: "xs = x # xs'" and len: "length xs' = length F"
    by (cases xs) auto
  show ?case
  proof (cases i)
    case 0
    with Cons.prems xs show ?thesis by simp
  next
    case (Suc j)
    with Cons.prems have "j < length F" "F ! j" by simp_all
    from Cons.IH [OF len this] Suc xs show ?thesis by simp
  qed
qed

lemma dot_extend:
  "length x = length F \<Longrightarrow> c + length (filter id F) \<le> length y \<Longrightarrow>
     dot x (map (\<lambda>j. if F ! j then y ! (c + rank F j) else 0) [0..<length F])
       = dot (select F x) (drop c y)"
proof (induction F arbitrary: x c)
  case Nil
  then show ?case by simp
next
  case (Cons b F)
  then obtain v x' where x: "x = v # x'" and len: "length x' = length F"
    by (cases x) auto
  have shift: "map (\<lambda>j. if (b # F) ! j then y ! (c + rank (b # F) j) else 0) [0..<length (b # F)]
      = (if b then y ! c else 0) #
        map (\<lambda>j. if F ! j then y ! ((if b then Suc c else c) + rank F j) else 0) [0..<length F]"
    by (simp add: map_upt_Suc del: upt_Suc)
  show ?case
  proof (cases b)
    case True
    with Cons.prems have c: "c < length y" and "Suc c + length (filter id F) \<le> length y"
      by (simp_all add: id_def)
    from Cons.IH [OF len this(2)] shift True x c show ?thesis
      by (simp add: Cons_nth_drop_Suc [symmetric])
  next
    case False
    with Cons.prems have "c + length (filter id F) \<le> length y" by (simp add: id_def)
    from Cons.IH [OF len this] shift False x show ?thesis by simp
  qed
qed

lemma Inverse_free_row:
  assumes i: "i < length F" "F ! i" and shape: "reduced_shape fac a F"
  shows "Inverse fac a F ! i
           = map (\<lambda>j. if F ! j then (fac (restrict a F) ! rank F i) ! (0 + rank F j) else 0)
               [0..<length F]"
proof -
  let ?M = "fac (restrict a F)"
  from select_nth [OF refl i] have p: "rank F i < length (filter id F)" by simp
  with shape have pM: "rank F i < length ?M" and
    row: "length (?M ! rank F i) = length (filter id F)"
    by (simp_all add: reduced_shape_def list_all_length)
  have "entry ?M (rank F i) (rank F j) = ?M ! rank F i ! rank F j" if "j < length F" "F ! j" for j
  proof -
    from select_nth [OF refl that] have "rank F j < length (filter id F)" by simp
    with pM row show ?thesis by (simp add: entry_def)
  qed
  with i show ?thesis by (simp add: Inverse_def)
qed

lemma Inverse_update_free:
  assumes i: "i < length F" "F ! i" and shape: "reduced_shape fac a F"
    and r: "length r = length F"
  shows "matvec (Inverse fac a F) r ! i = matvec (fac (restrict a F)) (select F r) ! rank F i"
proof -
  let ?M = "fac (restrict a F)"
  from select_nth [OF refl i] have p: "rank F i < length (filter id F)" by simp
  with shape have pM: "rank F i < length ?M" and
    row: "length (?M ! rank F i) = length (filter id F)"
    by (simp_all add: reduced_shape_def list_all_length)
  have "matvec (Inverse fac a F) r ! i = dot (Inverse fac a F ! i) r"
    using i by (simp add: matvec_def Inverse_length)
  also have "\<dots> = dot r (map (\<lambda>j. if F ! j then (?M ! rank F i) ! (0 + rank F j) else 0)
                           [0..<length F])"
    by (simp only: Inverse_free_row [OF i shape] dot_commute)
  also have "\<dots> = dot (select F r) (drop 0 (?M ! rank F i))"
    by (rule dot_extend) (simp_all add: r row)
  also have "\<dots> = matvec ?M (select F r) ! rank F i"
    using pM by (simp add: matvec_def dot_commute)
  finally show ?thesis .
qed

lemma Inverse_constrained_row:
  assumes "i < length F" and "\<not> F ! i"
  shows "set (Inverse fac A F ! i) \<subseteq> {0}"
  using assms by (auto simp: Inverse_def)

lemma Inverse_update_constrained:
  assumes "i < length F" and "\<not> F ! i"
  shows "matvec (Inverse fac A F) r ! i = 0"
proof -
  have "matvec (Inverse fac A F) r ! i = dot (Inverse fac A F ! i) r"
    using assms(1) by (simp add: matvec_def Inverse_length)
  also have "\<dots> = 0"
    by (rule dot_zero_row) (rule Inverse_constrained_row [OF assms])
  finally show ?thesis .
qed

lemma dirichlet_solve_nth:
  assumes "i < length ug" and "i < length F"
  shows "dirichlet_solve fac a f F ug ! i
           = ug ! i + matvec (Inverse fac a F) (vsub f (matvec a ug)) ! i"
  using assms by (simp add: dirichlet_solve_def vadd_def Let_def matvec_def Inverse_length)

lemma dirichlet_solve_constrained:
  assumes "i < length ug" and "i < length freedofs" and "\<not> freedofs ! i"
  shows "dirichlet_solve fac a f freedofs ug ! i = ug ! i"
  using assms by (simp add: dirichlet_solve_nth Inverse_update_constrained)

lemma residual_length:
  "system_shape a f F ug \<Longrightarrow> length (vsub f (matvec a ug)) = length F"
  by (simp add: system_shape_def vsub_def matvec_def)

lemma dirichlet_solve_free:
  assumes i: "i < length F" "F ! i"
    and sys: "system_shape a f F ug" and shape: "reduced_shape fac a F"
  shows "dirichlet_solve fac a f F ug ! i
           = ug ! i + matvec (fac (restrict a F)) (select F (vsub f (matvec a ug))) ! rank F i"
proof -
  from sys i have "i < length ug" by (simp add: system_shape_def)
  then show ?thesis
    using i by (simp add: dirichlet_solve_nth
        Inverse_update_free [OF i shape residual_length [OF sys]])
qed

lemma dirichlet_solve_equation:
  assumes i: "i < length F" "F ! i"
    and sys: "system_shape a f F ug" and shape: "reduced_shape fac a F"
    and sol: "solves_reduced fac a F (vsub f (matvec a ug))"
  shows "matvec a (dirichlet_solve fac a f F ug) ! i = f ! i"
proof -
  let ?r = "vsub f (matvec a ug)"
  let ?y = "matvec (fac (restrict a F)) (select F ?r)"
  let ?du = "matvec (Inverse fac a F) ?r"
  let ?n = "length F"
  from sys have len: "length ug = ?n" "length f = ?n" "length a = ?n"
    and rows: "\<And>k. k < ?n \<Longrightarrow> length (a ! k) = ?n"
    by (simp_all add: system_shape_def list_all_length)
  have rlen: "length ?r = ?n" by (rule residual_length [OF sys])
  from shape have ylen: "length ?y = length (filter id F)"
    by (simp add: reduced_shape_def matvec_def)
  from select_nth [OF refl i] have p: "rank F i < length (filter id F)" by simp
  have du_len: "length ?du = ?n" by (simp add: matvec_def Inverse_length)
  have du: "?du = map (\<lambda>j. if F ! j then ?y ! (0 + rank F j) else 0) [0..<?n]"
  proof (rule nth_equalityI)
    show "length ?du = length (map (\<lambda>j. if F ! j then ?y ! (0 + rank F j) else 0) [0..<?n])"
      by (simp add: du_len)
  next
    fix j assume "j < length ?du"
    then have j: "j < ?n" by (simp add: du_len)
    show "?du ! j = map (\<lambda>j. if F ! j then ?y ! (0 + rank F j) else 0) [0..<?n] ! j"
    proof (cases "F ! j")
      case True
      from Inverse_update_free [OF j True shape rlen] j True show ?thesis by simp
    next
      case False
      from Inverse_update_constrained [OF j False] j False show ?thesis by simp
    qed
  qed
  have "matvec a (dirichlet_solve fac a f F ug) ! i = dot (a ! i) (vadd ug ?du)"
    using i len by (simp add: matvec_def dirichlet_solve_def Let_def)
  also have "\<dots> = dot (a ! i) ug + dot (a ! i) ?du"
    by (rule dot_vadd_right) (simp add: len du_len)
  also have "dot (a ! i) ?du = dot (select F (a ! i)) (drop 0 ?y)"
    unfolding du by (rule dot_extend) (simp_all add: rows i ylen)
  also have "\<dots> = dot (select F (a ! i)) ?y" by simp
  also have "\<dots> = matvec (restrict a F) ?y ! rank F i"
  proof -
    from select_nth [OF len(3) i] have "select F a ! rank F i = a ! i" by simp
    moreover have "rank F i < length (select F a)"
      using p by (simp add: length_select len)
    ultimately show ?thesis by (simp add: matvec_def restrict_def)
  qed
  also have "\<dots> = select F ?r ! rank F i"
    using sol by (simp add: solves_reduced_def)
  also have "\<dots> = ?r ! i"
    using select_nth [OF rlen i] by simp
  also have "\<dots> = f ! i - dot (a ! i) ug"
    using i len by (simp add: vsub_def matvec_def)
  finally show ?thesis by simp
qed

lemma FreeDofs_length: "length (FreeDofs lib V) = ndof lib V"
  by (simp add: FreeDofs_def)

text \<open>
  In \<open>main\<close> and in \<open>Beam.solve_system\<close> the values that \<open>Set\<close> wrote stay at every
  constrained degree of freedom of the returned field.
\<close>

lemma main_dirichlet_values:
  assumes run: "main lib ord maxh = Inr (u, m)"
    and fes: "H1 lib (GenerateMesh lib maxh) ord ''bottom|right|top|left'' = Inr fes"
    and i: "i < length (Set_gf lib fes [0] (BND (GenerateMesh lib maxh)) (zeros (ndof lib fes)))"
      "i < ndof lib fes" "\<not> FreeDofs lib fes ! i"
  shows "u ! i = Set_gf lib fes [0] (BND (GenerateMesh lib maxh)) (zeros (ndof lib fes)) ! i"
proof -
  from run fes obtain a where
    "u = dirichlet_solve (factor lib) a
           (Assemble_lf lib fes (\<lambda>x v. dot [1] (val v)) (\<lambda>x v. 0) []) (FreeDofs lib fes)
           (Set_gf lib fes [0] (BND (GenerateMesh lib maxh)) (zeros (ndof lib fes)))"
    by (auto simp: main_def Let_def split: sum.splits)
  with i show ?thesis
    by (simp add: dirichlet_solve_constrained FreeDofs_length)
qed

lemma solve_system_dirichlet_values:
  assumes run: "solve_system lib (g, self) = Inr (g1, self1)"
    and given: "self_V self = Some V" "g_mesh g = Some gm" "self_fixedbnd self = Some fixed"
      "Boundaries lib gm fixed = Inr reg"
    and i: "i < length (Set_gf lib V (replicate (dim (self_mesh self)) 0) reg (zeros (ndof lib V)))"
      "i < ndof lib V" "\<not> FreeDofs lib V ! i"
  shows "map_option (\<lambda>u. u ! i) (self_gfu self1)
           = Some (Set_gf lib V (replicate (dim (self_mesh self)) 0) reg (zeros (ndof lib V)) ! i)"
proof -
  from run given obtain a f where
    "self_gfu self1 = Some (dirichlet_solve (factor lib) a f (FreeDofs lib V)
        (Set_gf lib V (replicate (dim (self_mesh self)) 0) reg (zeros (ndof lib V))))"
    by (auto simp: solve_system_def Let_def split: option.splits)
  with i show ?thesis
    by (simp add: dirichlet_solve_constrained FreeDofs_length)
qed

text \<open>
  C1. Dirichlet elimination round-trip. For every system \<open>(a, f)\<close>, every free-DOF mask
  and every grid function \<open>ug\<close> holding the prescribed values, the solve forms the
  residual \<open>r = f - a ug\<close>, applies the inverse restricted to the free DOFs and adds
  the update to \<open>ug\<close>. Whatever the factorisation returns, the solution carries exactly
  the value of \<open>ug\<close> at every constrained DOF. At a free DOF the solution is \<open>ug\<close>
  plus the entry of that DOF in the factorisation of \<open>A_FF\<close> applied to \<open>r_F\<close>; and
  when the factorisation solves the reduced system \<open>A_FF y = r_F\<close>, the solution
  satisfies the equation of every free row, \<open>(a u)\<^sub>i = f\<^sub>i\<close>.
\<close>

theorem dirichlet_roundtrip:
  assumes "i < length ug" and "i < length freedofs"
  shows "(\<not> freedofs ! i \<longrightarrow> dirichlet_solve fac a f freedofs ug ! i = ug ! i) \<and>
         (freedofs ! i \<and> system_shape a f freedofs ug \<and> reduced_shape fac a freedofs \<longrightarrow>
            dirichlet_solve fac a f freedofs ug ! i
              = ug ! i + matvec (fac (restrict a freedofs))
                           (select freedofs (vsub f (matvec a ug))) ! rank freedofs i) \<and>
         (freedofs ! i \<and> system_shape a f freedofs ug \<and> reduced_shape fac a freedofs \<and>
          solves_reduced fac a freedofs (vsub f (matvec a ug)) \<longrightarrow>
            matvec a (dirichlet_solve fac a f freedofs ug) ! i = f ! i)"
  using assms
  by (simp add: dirichlet_solve_constrained dirichlet_solve_free dirichlet_solve_equation)

theorem dirichlet_roundtrip_witness:
  "(0 < length [5, 0 :: real] \<and> (0::nat) < length [False, True] \<and> \<not> [False, True] ! 0) \<and>
   ((1::nat) < length [5, 0 :: real] \<and> (1::nat) < length [False, True] \<and> [False, True] ! 1) \<and>
   system_shape [[2, 1], [1, 2]] [1, 1] [False, True] [5, 0] \<and>
   reduced_shape (map (map inverse)) [[2, 1], [1, 2]] [False, True] \<and>
   solves_reduced (map (map inverse)) [[2, 1], [1, 2]] [False, True]
     (vsub [1, 1] (matvec [[2, 1], [1, 2]] [5, 0])) \<and>
   dirichlet_solve (map (map inverse)) [[2, 1], [1, 2]] [1, 1] [False, True] [5, 0] = [5, - 2] \<and>
   dirichlet_solve (map (map inverse)) [[2, 1], [1, 2]] [1, 1] [False, True] [5, 0] ! 0 = 5 \<and>
   matvec [[2, 1], [1, 2]]
     (dirichlet_solve (map (map inverse)) [[2, 1], [1, 2]] [1, 1] [False, True] [5, 0]) ! 1
     = [1, 1] ! 1"
proof -
  have shapes: "system_shape [[2, 1], [1, 2]] [1, 1] [False, True] [5, 0] \<and>
      reduced_shape (map (map inverse)) [[2, 1], [1, 2]] [False, True] \<and>
      solves_reduced (map (map inverse)) [[2, 1], [1, 2]] [False, True]
        (vsub [1, 1] (matvec [[2, 1], [1, 2]] [5, 0]))"
    by (simp add: system_shape_def reduced_shape_def solves_reduced_def restrict_def
        vsub_def matvec_def)
  have val: "dirichlet_solve (map (map inverse)) [[2, 1], [1, 2]] [1, 1] [False, True] [5, 0]
      = [5, - 2]"
    by (simp add: dirichlet_solve_def vsub_def vadd_def matvec_def Inverse_def restrict_def
        entry_def rank_def upt2)
  have i0: "0 < length [5, 0 :: real]" "(0::nat) < length [False, True]" by simp_all
  have i1: "(1::nat) < length [5, 0 :: real]" "(1::nat) < length [False, True]" by simp_all
  from dirichlet_roundtrip [OF i0, of "map (map inverse)" "[[2, 1], [1, 2]]" "[1, 1]"]
    dirichlet_roundtrip [OF i1, of "map (map inverse)" "[[2, 1], [1, 2]]" "[1, 1]"]
    shapes val
  show ?thesis by simp
qed

subsection \<open>The forms of the elasticity problem\<close>

text \<open>
  C2. The specification has the bilinear form of a Beam integrate \<open>\<sigma>(u) : \<epsilon>(v)\<close> with
  \<open>\<sigma>(u) = \<lambda> tr(\<epsilon>(u)) I + 2 \<mu> \<epsilon>(u)\<close>. The integrand that \<open>define_forms\<close> hands to
  the assembler multiplies \<open>\<lambda> I\<close> by the sum of the first three row-major components
  of \<open>\<epsilon>(u)\<close>, not by its trace. In three dimensions, for the shear gradient
  \<open>ex_shear\<close> (trace zero) tested against \<open>ex_stretch\<close>, the integrand of the code is
  500 where that of the specification is 0.
\<close>

theorem beam_stress_is_not_hooke:
  "EquationFA 1000 1000 3 ex_shear ex_stretch = Inr 500 \<and>
   InnerProduct (sigma_spec 1000 1000 3 (grad ex_shear)) (epsilon (grad ex_stretch)) = 0"
  by (simp add: EquationFA_def sigma_def sigma_spec_def epsilon_def getitem_def
      trace_def ex_shear_def ex_stretch_def linalg_defs upt3)

subsection \<open>The line search\<close>

text \<open>
  With the cost evaluators of the notebook, every retry of the line search ends in
  \<open>NameError\<close>, after the deformation has been overwritten; and the update of the
  deformation leaves \<open>gfsetOld\<close> and \<open>gfset\<close> as two names of one object.
\<close>

lemma update_gfset_aliases:
  "update_gfset L s = Inr s1 \<Longrightarrow> gfsetOld s1 = gfset s1"
  by (auto simp: update_gfset_def Let_def split: if_splits)

lemma line_search_retry_notebook:
  assumes "Jold s < Jnew s" and "1 / 10 ^ 12 < scale s" and "\<not> scale s / 2 \<le> 1 / 10 ^ 7"
  shows "map_option raised (line_search L notebook_globals s)
           = Some (Some (NameError ''CostAuto''))"
    and "gfu s \<noteq> gfset s \<Longrightarrow>
         map_option final_gfset (line_search L notebook_globals s)
           = Some (vsub (heap s (gfsetOld s)) (smul (scale s / 2) (heap s (gfX s))))"
  using assms
  by (subst line_search.simps;
      simp add: Let_def evaluate_cost_def notebook_globals_def raised_def final_gfset_def
        final_state_def solve_state_def)+

text \<open>
  C3. The specification has the driver, with line search enabled, halve the step and
  re-evaluate the objective until it no longer increases. On the example data the
  first trial step increases the objective, the line search is entered, and the
  re-evaluation \<open>Integrate(CostAuto(gfu), mesh)\<close> raises \<open>NameError\<close>: the notebook
  defines no \<open>CostAuto\<close>.
\<close>

theorem line_search_raises_NameError:
  "map_option raised (optimize (ex_lib 1) notebook_globals True 1 ex_state)
     = Some (Some (NameError ''CostAuto''))"
  apply (simp add: driver_defs linalg_defs)
  apply (subst line_search.simps)
  apply (simp add: driver_defs linalg_defs)
  done

text \<open>
  C5. The specification has a line-search retry recompute the candidate deformation
  from the value \<open>gfset\<close> held at the start of the iteration. \<open>gfsetOld = gfset\<close> makes
  \<open>gfsetOld\<close> a second name of the same object, so the retry subtracts the halved step
  from the vector that the full step has already changed: on the example data the
  deformation starts at \<open>(0, 0)\<close>, the full step gives \<open>(0, -1/100)\<close>, and the retry
  leaves \<open>(0, -3/200)\<close> where the start minus the halved step is \<open>(0, -1/200)\<close>.
\<close>

theorem line_search_retry_from_updated_gfset:
  "map_option final_gfset (optimize (ex_lib 1) notebook_globals True 1 ex_state)
     = Some [0, - (3 / 200)] \<and>
   vsub [0, 0] (smul (1 / 200) [0, 1]) = [0, - (1 / 200)]"
  apply (simp add: driver_defs linalg_defs)
  apply (subst line_search.simps)
  apply (simp add: driver_defs linalg_defs)
  done

subsection \<open>The update of the deformation\<close>





text \<open>
  With four degrees of freedom per component, of which 0 and 2 lie on \<open>left\<close>, the
  call for \<open>left\<close> zeroes the whole first component and nothing of the second.
\<close>

lemma component_Set0_whole_component:
  "component_Set0 ex_lib4 0 ''left'' [1, 2, 3, 4, 5, 6, 7, 8] = [0, 0, 0, 0, 5, 6, 7, 8]"
  by (simp add: component_Set0_def ex_lib4_def ex_lib_def upt4)




lemma SolveAdjointEquation_frame:
  "iteracion (SolveAdjointEquation L s) = iteracion s"
  "gfX (SolveAdjointEquation L s) = gfX s"
  by (simp_all add: SolveAdjointEquation_def Let_def)

lemma SolveDeformationEquationAuto_frame:
  "iteracion (SolveDeformationEquationAuto L s) = iteracion s"
  "gfX (SolveDeformationEquationAuto L s) = gfX s"
  by (simp_all add: SolveDeformationEquationAuto_def Let_def)

lemma solve_state_frame:
  "scale (solve_state L s) = scale s"
  "iteracion (solve_state L s) = iteracion s"
  "gfX (solve_state L s) = gfX s"
  by (simp_all add: solve_state_def Let_def)

lemma solve_equations_frame:
  "iteracion (solve_equations L k s) = iteracion s @ [k]"
  "gfX (solve_equations L k s) = gfX s"
  by (simp_all add: solve_equations_def Let_def SolveDeformationEquationAuto_frame
      SolveAdjointEquation_frame solve_state_frame)

text \<open>
  C10. The step scale is \<open>0.01 / Norm(gfX.vec)\<close> with no guard: whenever the deformation
  solve leaves the zero vector in \<open>gfX\<close>, the iteration ends in \<open>ZeroDivisionError\<close>,
  raised before the deformation is touched.
\<close>

theorem zero_descent_direction_raises:
  assumes "heap (solve_equations L k s) (gfX s) = zeros n"
  shows "iteration L G LineSearch k s = Some (Inl (ZeroDivisionError, solve_equations L k s))"
  using assms
  by (simp add: iteration_def update_gfset_def solve_equations_frame Norm_zeros)

theorem zero_descent_direction_raises_witness:
  "heap (solve_equations (ex_lib 0) 0 ex_state) (gfX ex_state) = zeros 2 \<and>
   iteration (ex_lib 0) notebook_globals False 0 ex_state
     = Some (Inl (ZeroDivisionError, solve_equations (ex_lib 0) 0 ex_state))"
proof -
  have h: "heap (solve_equations (ex_lib 0) 0 ex_state) (gfX ex_state) = zeros 2"
    by (simp add: driver_defs linalg_defs)
  from zero_descent_direction_raises [OF h] h show ?thesis
    by blast
qed

subsection \<open>Termination of the driver\<close>

lemma line_search_bounded:
  "scale s \<le> 2 ^ n / 10 ^ 7 \<Longrightarrow>
     \<exists>r. line_search L G s = Some r \<and> iteracion (final_state r) = iteracion s"
proof (induction n arbitrary: s)
  case 0
  then have "scale s \<le> 1 / 10 ^ 7" by simp
  then show ?case
    by (subst line_search.simps) (auto simp: Let_def final_state_def)
next
  case (Suc n)
  then have half: "scale s / 2 \<le> 2 ^ n / 10 ^ 7" by simp
  show ?case
  proof (cases "Jold s < Jnew s \<and> 1 / 10 ^ 12 < scale s")
    case False
    then show ?thesis
      by (subst line_search.simps) (auto simp: final_state_def)
  next
    case enter: True
    show ?thesis
    proof (cases "scale s / 2 \<le> 1 / 10 ^ 7")
      case True
      with enter show ?thesis
        by (subst line_search.simps) (auto simp: Let_def final_state_def)
    next
      case False
      define t where "t = solve_state L (s\<lparr>scale := scale s / 2,
        heap := (heap s)(gfset s :=
                   vsub (heap s (gfsetOld s)) (smul (scale s / 2) (heap s (gfX s)))),
        deformation := Some (gfset s)\<rparr>)"
      have unfold: "line_search L G s =
        (case evaluate_cost L G ''CostAuto'' t of
           Inl e \<Rightarrow> Some (Inl (e, t))
         | Inr J \<Rightarrow> line_search L G (t\<lparr>Jnew := J\<rparr>))"
        using enter False
        by (subst line_search.simps) (simp add: Let_def t_def cong: sum.case_cong)
      have t_scale: "scale t = scale s / 2" and t_it: "iteracion t = iteracion s"
        by (simp_all add: t_def solve_state_frame)
      show ?thesis
      proof (cases "evaluate_cost L G ''CostAuto'' t")
        case (Inl e)
        with unfold t_it show ?thesis by (simp add: final_state_def)
      next
        case (Inr J)
        have "scale (t\<lparr>Jnew := J\<rparr>) \<le> 2 ^ n / 10 ^ 7"
          using half t_scale by simp
        from Suc.IH [OF this] obtain r where
          "line_search L G (t\<lparr>Jnew := J\<rparr>) = Some r"
          "iteracion (final_state r) = iteracion (t\<lparr>Jnew := J\<rparr>)" by blast
        with unfold Inr t_it show ?thesis by simp
      qed
    qed
  qed
qed

lemma line_search_returns:
  "\<exists>r. line_search L G s = Some r \<and> iteracion (final_state r) = iteracion s"
proof -
  have "\<exists>n. scale s * 10 ^ 7 < 2 ^ n"
    by (rule real_arch_pow) simp
  then obtain n where "scale s * 10 ^ 7 < 2 ^ n" ..
  then have "scale s \<le> 2 ^ n / 10 ^ 7"
    by (simp add: pos_le_divide_eq)
  then show ?thesis by (rule line_search_bounded)
qed

lemma update_gfset_iteracion:
  "iteracion (final_state (update_gfset L s)) = iteracion s"
  by (simp add: update_gfset_def final_state_def Let_def)

lemma iteration_returns:
  "\<exists>r. iteration L G LineSearch k s = Some r \<and>
       length (iteracion (final_state r)) = Suc (length (iteracion s))"
proof (cases "update_gfset L (solve_equations L k s)")
  case (Inl es)
  with update_gfset_iteracion [of L "solve_equations L k s"] show ?thesis
    by (simp add: iteration_def final_state_def solve_equations_frame)
next
  case upd: (Inr s1)
  with update_gfset_iteracion [of L "solve_equations L k s"]
  have it1: "iteracion s1 = iteracion s @ [k]"
    by (simp add: final_state_def solve_equations_frame)
  show ?thesis
  proof (cases "evaluate_cost L G ''CostAuto2'' s1")
    case (Inl e)
    with upd it1 show ?thesis by (simp add: iteration_def final_state_def)
  next
    case (Inr J)
    show ?thesis
    proof (cases LineSearch)
      case False
      with upd Inr it1 show ?thesis by (simp add: iteration_def final_state_def)
    next
      case True
      from line_search_returns [of L G "s1\<lparr>Jnew := J\<rparr>"] obtain r where
        "line_search L G (s1\<lparr>Jnew := J\<rparr>) = Some r"
        "iteracion (final_state r) = iteracion (s1\<lparr>Jnew := J\<rparr>)" by blast
      with upd Inr it1 True show ?thesis by (simp add: iteration_def)
    qed
  qed
qed

lemma optimize_loop_returns:
  "\<exists>r. optimize_loop L G LineSearch ks s = Some r \<and>
       length (iteracion (final_state r)) \<le> length (iteracion s) + length ks"
proof (induction ks arbitrary: s)
  case Nil
  show ?case by (simp add: final_state_def)
next
  case (Cons k ks)
  from iteration_returns [of L G LineSearch k s] obtain r where
    r: "iteration L G LineSearch k s = Some r"
    and len: "length (iteracion (final_state r)) = Suc (length (iteracion s))" by blast
  show ?case
  proof (cases r)
    case (Inl es)
    with r len show ?thesis by simp
  next
    case (Inr s1)
    show ?thesis
    proof (cases "converged s1")
      case True
      with r Inr len show ?thesis by simp
    next
      case False
      from Cons.IH [of "s1\<lparr>Jold := Jnew s1\<rparr>"] obtain r' where
        "optimize_loop L G LineSearch ks (s1\<lparr>Jold := Jnew s1\<rparr>) = Some r'"
        "length (iteracion (final_state r'))
           \<le> length (iteracion (s1\<lparr>Jold := Jnew s1\<rparr>)) + length ks"
        by blast
      with r Inr len False show ?thesis by (simp add: final_state_def)
    qed
  qed
qed

lemma optimize_returns: "\<exists>r. optimize L G LineSearch iter_max s = Some r"
proof -
  define s3 where
    "s3 = solve_state L (s\<lparr>heap := (heap s)(gfset s := zeros (length (heap s (gfset s)))),
                             deformation := Some (gfset s)\<rparr>)"
  show ?thesis
  proof (cases "evaluate_cost L G ''CostAuto2'' s3")
    case (Inl e)
    then show ?thesis
      by (simp add: optimize_def Let_def s3_def)
  next
    case (Inr J)
    from optimize_loop_returns [of L G LineSearch "[0..<iter_max]"
        "s3\<lparr>Jold := J, converged := False, iteracion := [], objetivo := []\<rparr>"]
    show ?thesis using Inr
      by (auto simp add: optimize_def Let_def s3_def)
  qed
qed

lemma line_search_converges:
  "Jold t < Jnew t \<Longrightarrow> 1 / 10 ^ 12 < scale t \<Longrightarrow> scale t / 2 \<le> 1 / 10 ^ 7 \<Longrightarrow>
     line_search L G t = Some (Inr (t\<lparr>scale := scale t / 2, converged := True\<rparr>))"
  by (subst line_search.simps) (simp add: Let_def)

lemma loop_breaks:
  "iteration L G LineSearch k u = Some r \<Longrightarrow> converged (final_state r) \<Longrightarrow>
     optimize_loop L G LineSearch (k # ks) u = Some r"
  by (cases r) (simp_all add: final_state_def)

text \<open>
  C6. The driver always terminates. For every table of cost evaluators, every setting
  of the line-search flag and every state: the optimisation cell returns; the loop over
  \<open>range(iter_max)\<close> returns after starting at most \<open>iter_max\<close> iterations (each
  appends one entry to \<open>iteracion\<close>); the halving loop returns, because the scale is
  halved in every pass and reaches the threshold \<open>1e-7\<close>; when a halving brings the
  scale to or below the threshold the line search sets \<open>converged\<close> and stops, and an
  iteration that ends with \<open>converged\<close> set ends the loop.
\<close>

theorem optimize_terminates:
  "optimize L G LineSearch iter_max s \<noteq> None \<and>
   (\<exists>r. optimize_loop L G LineSearch [0..<iter_max] s = Some r \<and>
        length (iteracion (final_state r)) \<le> length (iteracion s) + iter_max) \<and>
   line_search L G t \<noteq> None \<and>
   (Jold t < Jnew t \<and> 1 / 10 ^ 12 < scale t \<and> scale t / 2 \<le> 1 / 10 ^ 7 \<longrightarrow>
      line_search L G t = Some (Inr (t\<lparr>scale := scale t / 2, converged := True\<rparr>))) \<and>
   (iteration L G LineSearch k u = Some r \<and> converged (final_state r) \<longrightarrow>
      optimize_loop L G LineSearch (k # ks) u = Some r)"
proof (intro conjI impI)
  from optimize_returns [of L G LineSearch iter_max s]
  show "optimize L G LineSearch iter_max s \<noteq> None" by auto
  from optimize_loop_returns [of L G LineSearch "[0..<iter_max]" s]
  show "\<exists>r. optimize_loop L G LineSearch [0..<iter_max] s = Some r \<and>
        length (iteracion (final_state r)) \<le> length (iteracion s) + iter_max" by simp
  from line_search_returns [of L G t]
  show "line_search L G t \<noteq> None" by auto
next
  assume "Jold t < Jnew t \<and> 1 / 10 ^ 12 < scale t \<and> scale t / 2 \<le> 1 / 10 ^ 7"
  then show "line_search L G t = Some (Inr (t\<lparr>scale := scale t / 2, converged := True\<rparr>))"
    by (simp add: line_search_converges)
next
  assume "iteration L G LineSearch k u = Some r \<and> converged (final_state r)"
  then show "optimize_loop L G LineSearch (k # ks) u = Some r"
    using loop_breaks by blast
qed

theorem optimize_terminates_witness:
  "(Jold ex_probe < Jnew ex_probe \<and> 1 / 10 ^ 12 < scale ex_probe \<and>
      scale ex_probe / 2 \<le> 1 / 10 ^ 7) \<and>
   line_search (ex_lib 100000) notebook_globals ex_probe
     = Some (Inr (ex_probe\<lparr>scale := scale ex_probe / 2, converged := True\<rparr>)) \<and>
   (iteration (ex_lib 100000) notebook_globals True 0 ex_state
      = Some (the (iteration (ex_lib 100000) notebook_globals True 0 ex_state)) \<and>
    converged (final_state (the (iteration (ex_lib 100000) notebook_globals True 0 ex_state)))) \<and>
   optimize_loop (ex_lib 100000) notebook_globals True (0 # [1, 2]) ex_state
     = Some (the (iteration (ex_lib 100000) notebook_globals True 0 ex_state)) \<and>
   optimize (ex_lib 100000) notebook_globals True 3 ex_state \<noteq> None"
proof -
  let ?it = "iteration (ex_lib 100000) notebook_globals True 0 ex_state"
  have probe: "Jold ex_probe < Jnew ex_probe \<and> 1 / 10 ^ 12 < scale ex_probe \<and>
      scale ex_probe / 2 \<le> 1 / 10 ^ 7"
    by (simp add: ex_probe_def ex_state_def)
  have conv: "map_option (\<lambda>r. converged (final_state r)) ?it = Some True"
    apply (simp add: driver_defs linalg_defs)
    apply (subst line_search.simps)
    apply (simp add: driver_defs linalg_defs)
    done
  then obtain r where r: "?it = Some r" by auto
  with conv have it: "?it = Some (the ?it) \<and> converged (final_state (the ?it))"
    by simp
  from optimize_terminates [of "ex_lib 100000" notebook_globals True 3 ex_state ex_probe
      0 ex_state "the ?it" "[1, 2]"] probe it
  show ?thesis by blast
qed

subsection \<open>The elasticity problem\<close>

lemma split_pipe_not_Nil: "split_pipe s \<noteq> []"
  by (induction s) (auto split: list.splits)

lemma split_pipe_append: "split_pipe (p @ CHR ''|'' # q) = split_pipe p @ split_pipe q"
proof (induction p)
  case Nil
  show ?case by simp
next
  case (Cons c p)
  with split_pipe_not_Nil [of p] show ?case
    by (cases "split_pipe p") auto
qed

lemma literal_alternation_append:
  "literal_alternation (p @ CHR ''|'' # q) \<longleftrightarrow> literal_alternation p \<and> literal_alternation q"
  by (simp add: literal_alternation_def)

lemma define_space_literal:
  "literal_alternation pat \<Longrightarrow>
     constrained_boundaries (define_space lib (self\<lparr>self_fixedbnd := Some pat\<rparr>))
       = Inr (Some (map (\<lambda>n. n \<in> set (split_pipe pat)) (bnd_names (self_mesh self))))"
  by (simp add: define_space_def VectorH1_def name_mask_def constrained_boundaries_def)

text \<open>
  C7 as stated fails: the construction of the space raises nothing for a region name
  that the mesh does not have. The three-dimensional example mesh has no boundary
  \<open>wall\<close>; \<open>define_space\<close> succeeds on a Beam over it and constrains no boundary.
\<close>

theorem unknown_region_accepted:
  "''wall'' \<notin> set (bnd_names ex_mesh3) \<and>
   self_fixedbnd ex_beam3 = Some ''wall'' \<and>
   constrained_boundaries (define_space ex_ngsolve ex_beam3) = Inr (Some [False, False, False])"
  by (simp add: ex_beam3_def ex_mesh3_def Beam_def define_space_def constrained_boundaries_def
      VectorH1_def name_mask_def literal_alternation_def)

text \<open>
  C7, amended. Function-space construction does not fail when a requested region name
  does not exist in the mesh; the name is silently ignored. For names \<open>q\<close> written
  with letters, digits and underscores (one name or an alternation) of which none is a
  boundary of the mesh: a Beam whose \<open>fixedbnd\<close> is \<open>q\<close> gets a space with no
  constrained boundary, and a Beam whose \<open>fixedbnd\<close> is \<open>pat|q\<close> gets the
  constrained boundaries it gets for \<open>pat\<close> alone.
\<close>

theorem unknown_region_ignored:
  assumes "literal_alternation pat" and "literal_alternation q"
    and "set (split_pipe q) \<inter> set (bnd_names (self_mesh self)) = {}"
  shows "constrained_boundaries (define_space lib (self\<lparr>self_fixedbnd := Some q\<rparr>))
           = Inr (Some (replicate (length (bnd_names (self_mesh self))) False)) \<and>
         constrained_boundaries (define_space lib (self\<lparr>self_fixedbnd := Some (pat @ ''|'' @ q)\<rparr>))
           = constrained_boundaries (define_space lib (self\<lparr>self_fixedbnd := Some pat\<rparr>))"
proof -
  from assms(3) have absent: "\<And>n. n \<in> set (bnd_names (self_mesh self)) \<Longrightarrow> n \<notin> set (split_pipe q)"
    by auto
  have none: "map (\<lambda>n. n \<in> set (split_pipe q)) (bnd_names (self_mesh self))
      = replicate (length (bnd_names (self_mesh self))) False"
    using absent by (simp add: map_replicate_const [symmetric] cong: map_cong)
  have both: "literal_alternation (pat @ ''|'' @ q)"
    using assms(1,2) by (simp add: literal_alternation_append)
  have same: "map (\<lambda>n. n \<in> set (split_pipe (pat @ ''|'' @ q))) (bnd_names (self_mesh self))
      = map (\<lambda>n. n \<in> set (split_pipe pat)) (bnd_names (self_mesh self))"
    using absent by (simp add: split_pipe_append cong: map_cong)
  show ?thesis
    by (simp only: define_space_literal [OF assms(2)] define_space_literal [OF assms(1)]
        define_space_literal [OF both] none same)
qed

theorem unknown_region_ignored_witness:
  "literal_alternation ''left'' \<and> literal_alternation ''wall'' \<and>
   set (split_pipe ''wall'') \<inter> set (bnd_names (self_mesh ex_beam)) = {} \<and>
   constrained_boundaries (define_space ex_ngsolve (ex_beam\<lparr>self_fixedbnd := Some ''wall''\<rparr>))
     = Inr (Some (replicate (length (bnd_names (self_mesh ex_beam))) False)) \<and>
   constrained_boundaries
       (define_space ex_ngsolve (ex_beam\<lparr>self_fixedbnd := Some (''left'' @ ''|'' @ ''wall'')\<rparr>))
     = constrained_boundaries (define_space ex_ngsolve (ex_beam\<lparr>self_fixedbnd := Some ''left''\<rparr>)) \<and>
   constrained_boundaries (define_space ex_ngsolve (ex_beam\<lparr>self_fixedbnd := Some ''left''\<rparr>))
     = Inr (Some [True, False, False, False])"
proof -
  have h1: "literal_alternation ''left''" and h2: "literal_alternation ''wall''"
    by (simp_all add: literal_alternation_def)
  have h3: "set (split_pipe ''wall'') \<inter> set (bnd_names (self_mesh ex_beam)) = {}"
    by (simp add: ex_beam_def Beam_def ex_mesh_def)
  have v: "constrained_boundaries (define_space ex_ngsolve (ex_beam\<lparr>self_fixedbnd := Some ''left''\<rparr>))
      = Inr (Some [True, False, False, False])"
    using define_space_literal [OF h1, of ex_ngsolve ex_beam]
    by (simp add: ex_beam_def Beam_def ex_mesh_def)
  from unknown_region_ignored [OF h1 h2 h3, of ex_ngsolve] h1 h2 h3 v show ?thesis
    by blast
qed

lemmas beam_defs =
  solve_def define_space_def define_forms_def solve_system_def solve_system_self_def
  ex_ngsolve_def ex_ngsolve_region_def ex_globals_def ex_beam_def ex_solved_def ex_mesh_def
  ex_mesh_other_def Beam_def VectorH1_def name_mask_def literal_alternation_def
  EquationFA_def sigma_def epsilon_def getitem_def FreeDofs_def dirichlet_solve_def
  Boundaries_def replace_mesh_def solution_of_def Let_def upt4

lemma ex_solve: "solve ex_ngsolve (ex_globals, ex_beam) = Inr ex_solved"
  by (simp add: beam_defs linalg_defs)

text \<open>
  C8. \<open>Beam.solve()\<close> is idempotent. A second call on the state that a successful call
  left runs the three stages again and returns the same state, solution field included;
  and the result of a call does not depend on the derived attributes \<open>V\<close>, \<open>a\<close>, \<open>f\<close>,
  \<open>gfu\<close> it finds, which are all recomputed.
\<close>

theorem solve_idempotent:
  assumes "solve lib gs = Inr gs1"
  shows "solve lib gs1 = Inr gs1 \<and>
         solve lib (fst gs, (snd gs)\<lparr>self_V := V', self_a := a', self_f := f', self_gfu := u'\<rparr>)
           = solve lib gs"
  using assms
  by (auto simp: solve_def define_space_def define_forms_def solve_system_def VectorH1_def
      Boundaries_def Let_def split: option.splits sum.splits)

theorem solve_idempotent_witness:
  "solve ex_ngsolve (ex_globals, ex_beam) = Inr ex_solved \<and>
   solve ex_ngsolve ex_solved = Inr ex_solved \<and>
   solve ex_ngsolve (ex_globals, ex_beam\<lparr>self_V := None, self_a := Some [], self_f := Some [7],
                                         self_gfu := Some [1, 2]\<rparr>)
     = solve ex_ngsolve (ex_globals, ex_beam)"
  using solve_idempotent [OF ex_solve, where V' = None and a' = "Some []"
      and f' = "Some [7]" and u' = "Some [1, 2]"] ex_solve
  by simp

text \<open>
  C9. \<open>solve_system\<close> takes the region of the Dirichlet data from the global name
  \<open>mesh\<close>, not from \<open>self.mesh\<close>. Without a global \<open>mesh\<close> the method raises
  \<open>NameError\<close>, whatever the Beam holds; the mesh of the Beam is read for its
  dimension only, so that a Beam over any other mesh of the same dimension gets the same
  result; and under the precondition that the global \<open>mesh\<close> is the mesh of the Beam,
  the method does what it would do with the region of \<open>self.mesh\<close>.
\<close>

theorem solve_system_reads_global_mesh:
  "(g_mesh g = None \<and> self_V self \<noteq> None \<longrightarrow>
      solve_system lib (g, self) = Inl (NameError ''mesh'')) \<and>
   (dim m' = dim (self_mesh self) \<longrightarrow>
      solve_system lib (g, self\<lparr>self_mesh := m'\<rparr>)
        = replace_mesh m' (solve_system lib (g, self))) \<and>
   (g_mesh g = Some (self_mesh self) \<longrightarrow>
      solve_system lib (g, self) = solve_system_self lib (g, self))"
  by (auto simp: solve_system_def solve_system_self_def replace_mesh_def Let_def
      split: option.splits sum.splits)

text \<open>
  On the example data, with a kernel whose interpolation depends on the region: the
  method fails without the global; the Beam's own mesh can be exchanged; with the
  global equal to the Beam's mesh the two methods agree; and with another global mesh
  they differ, the Dirichlet data landing on another boundary.
\<close>

theorem solve_system_reads_global_mesh_witness:
  "(g_mesh ((fst ex_solved)\<lparr>g_mesh := None\<rparr>) = None \<and> self_V (snd ex_solved) \<noteq> None) \<and>
   solve_system ex_ngsolve_region ((fst ex_solved)\<lparr>g_mesh := None\<rparr>, snd ex_solved)
     = Inl (NameError ''mesh'') \<and>
   dim ex_mesh_other = dim (self_mesh (snd ex_solved)) \<and>
   solve_system ex_ngsolve_region (fst ex_solved, (snd ex_solved)\<lparr>self_mesh := ex_mesh_other\<rparr>)
     = replace_mesh ex_mesh_other (solve_system ex_ngsolve_region (fst ex_solved, snd ex_solved)) \<and>
   g_mesh (fst ex_solved) = Some (self_mesh (snd ex_solved)) \<and>
   solve_system ex_ngsolve_region (fst ex_solved, snd ex_solved)
     = solve_system_self ex_ngsolve_region (fst ex_solved, snd ex_solved) \<and>
   solution_of (solve_system ex_ngsolve_region (fst ex_solved, snd ex_solved))
     = Inr (Some [0, - (1 / 3000)]) \<and>
   solution_of (solve_system ex_ngsolve_region
       ((fst ex_solved)\<lparr>g_mesh := Some ex_mesh_other\<rparr>, snd ex_solved))
     = Inr (Some [1, - (1 / 3000)]) \<and>
   solution_of (solve_system_self ex_ngsolve_region
       ((fst ex_solved)\<lparr>g_mesh := Some ex_mesh_other\<rparr>, snd ex_solved))
     = Inr (Some [0, - (1 / 3000)])"
proof -
  have h1: "g_mesh ((fst ex_solved)\<lparr>g_mesh := None\<rparr>) = None \<and> self_V (snd ex_solved) \<noteq> None"
    by (simp add: ex_solved_def)
  have h2: "dim ex_mesh_other = dim (self_mesh (snd ex_solved))"
    by (simp add: ex_solved_def ex_beam_def Beam_def ex_mesh_def ex_mesh_other_def)
  have h3: "g_mesh (fst ex_solved) = Some (self_mesh (snd ex_solved))"
    by (simp add: ex_solved_def ex_globals_def ex_beam_def Beam_def)
  have v1: "solution_of (solve_system ex_ngsolve_region (fst ex_solved, snd ex_solved))
      = Inr (Some [0, - (1 / 3000)])"
    by (simp add: beam_defs linalg_defs)
  have v2: "solution_of (solve_system ex_ngsolve_region
        ((fst ex_solved)\<lparr>g_mesh := Some ex_mesh_other\<rparr>, snd ex_solved))
      = Inr (Some [1, - (1 / 3000)])"
    by (simp add: beam_defs linalg_defs)
  have v3: "solution_of (solve_system_self ex_ngsolve_region
        ((fst ex_solved)\<lparr>g_mesh := Some ex_mesh_other\<rparr>, snd ex_solved))
      = Inr (Some [0, - (1 / 3000)])"
    by (simp add: beam_defs linalg_defs)
  from solve_system_reads_global_mesh [of "(fst ex_solved)\<lparr>g_mesh := None\<rparr>" "snd ex_solved"
      ex_ngsolve_region ex_mesh_other]
    solve_system_reads_global_mesh [of "fst ex_solved" "snd ex_solved"
      ex_ngsolve_region ex_mesh_other]
    h1 h2 h3 v1 v2 v3
  show ?thesis by simp
qed

end
